theory Spec2Isabelle
  imports Main "HOL-Library.Word" "HOL-Library.Sublist"
begin

unbundle bit_operations_syntax

section \<open>Strings and character classes\<close>

text \<open>
  The program is \<^verbatim>\<open>service-log-parsers/log_parser.py\<close>. A Python \<^verbatim>\<open>str\<close> is a sequence
  of code points; the model covers the code points 0..255, one HOL \<^typ>\<open>char\<close> per code
  point (\<open>of_char\<close> is the code point), so \<open>length\<close> is Python's \<^verbatim>\<open>len\<close>.

  The patterns are compiled without \<^verbatim>\<open>re.ASCII\<close>, so \<^verbatim>\<open>\d\<close>, \<^verbatim>\<open>\w\<close> and \<^verbatim>\<open>\s\<close> are the
  Unicode classes of Python 3. On the code points 0..255 they are the ranges below.
\<close>

definition in_range :: "nat \<Rightarrow> nat \<Rightarrow> char \<Rightarrow> bool" where
  "in_range lo hi c \<longleftrightarrow> lo \<le> of_char c \<and> (of_char c :: nat) \<le> hi"

definition is_digit :: "char \<Rightarrow> bool" where
  "is_digit c \<longleftrightarrow> in_range 0x30 0x39 c"

definition is_word :: "char \<Rightarrow> bool" where
  "is_word c \<longleftrightarrow>
     in_range 0x30 0x39 c \<or> in_range 0x41 0x5A c \<or> c = CHR ''_'' \<or> in_range 0x61 0x7A c \<or>
     c = CHR 0xAA \<or> in_range 0xB2 0xB3 c \<or> c = CHR 0xB5 \<or> in_range 0xB9 0xBA c \<or>
     in_range 0xBC 0xBE c \<or> in_range 0xC0 0xD6 c \<or> in_range 0xD8 0xF6 c \<or>
     in_range 0xF8 0xFF c"

definition is_space :: "char \<Rightarrow> bool" where
  "is_space c \<longleftrightarrow>
     in_range 0x09 0x0D c \<or> in_range 0x1C 0x20 c \<or> c = CHR 0x85 \<or> c = CHR 0xA0"

text \<open>The class \<^verbatim>\<open>[a-zA-Z]\<close> of the operation pattern, and \<^verbatim>\<open>[A-Za-z0-9_]\<close>.\<close>

definition is_ascii_letter :: "char \<Rightarrow> bool" where
  "is_ascii_letter c \<longleftrightarrow> in_range 0x61 0x7A c \<or> in_range 0x41 0x5A c"

definition is_ascii_word :: "char \<Rightarrow> bool" where
  "is_ascii_word c \<longleftrightarrow>
     in_range 0x41 0x5A c \<or> in_range 0x61 0x7A c \<or> in_range 0x30 0x39 c \<or> c = CHR ''_''"

text \<open>\<^verbatim>\<open>str.lower()\<close> on the code points 0..255.\<close>

definition lower_char :: "char \<Rightarrow> char" where
  "lower_char c =
     (if in_range 0x41 0x5A c \<or> in_range 0xC0 0xD6 c \<or> in_range 0xD8 0xDE c
      then char_of (of_char c + (32 :: nat)) else c)"

definition lower :: "string \<Rightarrow> string" where
  "lower s = map lower_char s"

text \<open>\<^verbatim>\<open>p in s\<close> for strings: \<open>p\<close> occurs in \<open>s\<close> as a contiguous substring.\<close>

fun contains :: "string \<Rightarrow> string \<Rightarrow> bool" where
  "contains p [] = (p = [])"
| "contains p (x # xs) = (take (length p) (x # xs) = p \<or> contains p xs)"

text \<open>\<^verbatim>\<open>s.split(sep)\<close> for a one-character separator; the result is never empty.\<close>

fun split_on :: "char \<Rightarrow> string \<Rightarrow> string list" where
  "split_on sep [] = [[]]"
| "split_on sep (x # xs) =
     (if x = sep then [] # split_on sep xs
      else (case split_on sep xs of [] \<Rightarrow> [[x]] | y # ys \<Rightarrow> (x # y) # ys))"

section \<open>Regular expressions with backtracking\<close>

text \<open>
  The fragment of \<^verbatim>\<open>re\<close> that the two patterns of the program use: character classes,
  concatenation, greedy repetition and numbered capturing groups. \<open>rmatch r s c\<close> lists
  every way \<open>r\<close> matches a prefix of \<open>s\<close>, as the remaining input and the groups, in the
  order in which the backtracking matcher tries them (a greedy repetition tries one more
  iteration before it tries to stop). The first element is the match \<^verbatim>\<open>re\<close> reports.
\<close>

datatype rx =
    Eps
  | Cls "char \<Rightarrow> bool"
  | Seq rx rx
  | Star rx
  | Grp nat rx

type_synonym caps = "nat \<rightharpoonup> string"

fun rmatch :: "rx \<Rightarrow> string \<Rightarrow> caps \<Rightarrow> (string \<times> caps) list" where
  "rmatch Eps s c = [(s, c)]"
| "rmatch (Cls p) s c = (case s of [] \<Rightarrow> [] | x # xs \<Rightarrow> if p x then [(xs, c)] else [])"
| "rmatch (Seq a b) s c = concat (map (\<lambda>(s1, c1). rmatch b s1 c1) (rmatch a s c))"
| "rmatch (Star a) s c =
     concat (map (\<lambda>(s1, c1). if length s1 < length s then rmatch (Star a) s1 c1 else [])
                 (rmatch a s c)) @ [(s, c)]"
| "rmatch (Grp n a) s c =
     map (\<lambda>(s1, c1). (s1, c1(n \<mapsto> take (length s - length s1) s))) (rmatch a s c)"

definition lit :: "char \<Rightarrow> rx" where
  "lit x = Cls (\<lambda>c. c = x)"

definition plus :: "rx \<Rightarrow> rx" where
  "plus a = Seq a (Star a)"

fun seqs :: "rx list \<Rightarrow> rx" where
  "seqs [] = Eps"
| "seqs [a] = a"
| "seqs (a # as) = Seq a (seqs as)"

definition rep :: "nat \<Rightarrow> rx \<Rightarrow> rx" where
  "rep n a = seqs (replicate n a)"

text \<open>\<^verbatim>\<open>pattern.match(s)\<close>: a match anchored at the start of \<open>s\<close> (not at its end).\<close>

definition re_match :: "rx \<Rightarrow> string \<Rightarrow> caps option" where
  "re_match r s = (case rmatch r s Map.empty of [] \<Rightarrow> None | (_, c) # _ \<Rightarrow> Some c)"

text \<open>\<^verbatim>\<open>re.search(pattern, s)\<close>: the match at the leftmost start position that has one.\<close>

fun re_search :: "rx \<Rightarrow> string \<Rightarrow> caps option" where
  "re_search r [] = re_match r []"
| "re_search r (x # xs) =
     (case re_match r (x # xs) of Some c \<Rightarrow> Some c | None \<Rightarrow> re_search r xs)"

text \<open>
  \<^verbatim>\<open>match.group(n)\<close>. Every group of the two patterns below takes part in every match
  (lemma \<open>log_pattern_groups\<close>), so the \<^verbatim>\<open>None\<close> of an unset group never arises.
\<close>

definition group :: "caps \<Rightarrow> nat \<Rightarrow> string" where
  "group m n = the (m n)"

section \<open>The line pattern and \<^verbatim>\<open>parse_log_line\<close>\<close>

text \<open>
  \<^verbatim>\<open>log_pattern\<close> (lines 73-80), piece by piece:
  \<^verbatim>\<open>(\d{4}-\d{2}-\d{2}/\d{2}:\d{2}:\d{2}\.\d{3})\s+\<close>,
  \<^verbatim>\<open>\[([^\]]+)\]\<close>,
  \<^verbatim>\<open>\[([^:]+):(\w+):(\w+):(\w+)\]\s+\<close>,
  \<^verbatim>\<open>(\w+)\s+\<close>,
  \<^verbatim>\<open>\s*([^\s]+(?:\s+[^\s]+)*)\s+-\s+\<close>,
  \<^verbatim>\<open>(.*)\<close>.
\<close>

definition log_pattern :: rx where
  "log_pattern = seqs [
     Grp 1 (seqs [rep 4 (Cls is_digit), lit CHR ''-'', rep 2 (Cls is_digit), lit CHR ''-'',
                  rep 2 (Cls is_digit), lit CHR ''/'', rep 2 (Cls is_digit), lit CHR '':'',
                  rep 2 (Cls is_digit), lit CHR '':'', rep 2 (Cls is_digit), lit CHR ''.'',
                  rep 3 (Cls is_digit)]),
     plus (Cls is_space),
     lit CHR ''['', Grp 2 (plus (Cls (\<lambda>c. c \<noteq> CHR '']''))), lit CHR '']'',
     lit CHR ''['', Grp 3 (plus (Cls (\<lambda>c. c \<noteq> CHR '':''))), lit CHR '':'',
     Grp 4 (plus (Cls is_word)), lit CHR '':'',
     Grp 5 (plus (Cls is_word)), lit CHR '':'',
     Grp 6 (plus (Cls is_word)), lit CHR '']'', plus (Cls is_space),
     Grp 7 (plus (Cls is_word)), plus (Cls is_space),
     Star (Cls is_space),
     Grp 8 (Seq (plus (Cls (\<lambda>c. \<not> is_space c)))
                (Star (Seq (plus (Cls is_space)) (plus (Cls (\<lambda>c. \<not> is_space c)))))),
     plus (Cls is_space), lit CHR ''-'', plus (Cls is_space),
     Grp 9 (Star (Cls (\<lambda>c. c \<noteq> CHR 0x0A)))]"

text \<open>The dict that \<^verbatim>\<open>parse_log_line\<close> builds (lines 129-140); all ten keys are always set.\<close>

record log_data =
  timestamp :: string
  timestamp_micros :: int
  thread :: string
  service_context :: string
  trace_id :: string
  parent_span_id :: string
  span_id :: string
  level :: string
  logger :: string
  message :: string

text \<open>
  What the program reads from outside: \<^verbatim>\<open>int(datetime.strptime(ts, fmt).timestamp() * 1_000)\<close>
  (\<open>None\<close> when \<^verbatim>\<open>strptime\<close> raises \<^verbatim>\<open>ValueError\<close>), the clock \<^verbatim>\<open>int(time.time() * 1_000)\<close>,
  and the configured \<^verbatim>\<open>SERVICE_NAME\<close>.
\<close>

record env =
  strptime_millis :: "string \<Rightarrow> int option"
  now_millis :: int
  SERVICE_NAME :: string

definition parse_log_line :: "env \<Rightarrow> string \<Rightarrow> log_data option" where
  "parse_log_line e line =
     (case re_match log_pattern line of
        None \<Rightarrow> None
      | Some m \<Rightarrow>
          Some \<lparr> timestamp = group m 1,
                 timestamp_micros =
                   (case strptime_millis e (group m 1) of Some t \<Rightarrow> t | None \<Rightarrow> now_millis e),
                 thread = group m 2,
                 service_context = group m 3,
                 trace_id = group m 4,
                 parent_span_id = group m 5,
                 span_id = group m 6,
                 level = group m 7,
                 logger = group m 8,
                 message = group m 9 \<rparr>)"

section \<open>Identifiers\<close>

text \<open>
  \<^verbatim>\<open>uuid.uuid4()\<close> is \<^verbatim>\<open>UUID(bytes=os.urandom(16), version=4)\<close>: sixteen random bytes with
  the variant and version bits overwritten; \<^verbatim>\<open>.hex\<close> is \<^verbatim>\<open>'%032x' % int\<close>. The entropy of
  the process is the sequence of 128-bit values that \<^verbatim>\<open>os.urandom(16)\<close> returns.
\<close>

type_synonym entropy = "nat \<Rightarrow> 128 word"

definition uuid_int :: "128 word \<Rightarrow> 128 word" where
  "uuid_int b =
     (((b AND NOT (push_bit 48 0xC000)) OR push_bit 48 0x8000) AND NOT (push_bit 64 0xF000))
       OR push_bit 76 4"

definition hex_digit :: "nat \<Rightarrow> char" where
  "hex_digit n = ''0123456789abcdef'' ! (n mod 16)"

definition hex32 :: "nat \<Rightarrow> string" where
  "hex32 n = map (\<lambda>i. hex_digit (n div 16 ^ (31 - i))) [0..<32]"

definition uuid4_hex :: "entropy \<Rightarrow> string \<times> entropy" where
  "uuid4_hex g = (hex32 (unat (uuid_int (g 0))), \<lambda>n. g (Suc n))"

text \<open>
  The test of lines 165, 170 and 177:
  \<^verbatim>\<open>len(x) not in (16, 32) or not all(c in '0123456789abcdefABCDEF' for c in x)\<close>.
\<close>

definition invalid_id :: "string \<Rightarrow> bool" where
  "invalid_id x \<longleftrightarrow>
     length x \<notin> {16, 32} \<or> \<not> list_all (\<lambda>c. c \<in> set ''0123456789abcdefABCDEF'') x"

text \<open>\<^verbatim>\<open>ZipkinAttrs\<close> as line 211 builds it (\<^verbatim>\<open>flags\<close> is always \<^verbatim>\<open>None\<close>).\<close>

record zipkin_attrs =
  attr_trace_id :: string
  attr_span_id :: string
  attr_parent_span_id :: "string option"
  is_sampled :: bool

text \<open>
  Lines 160-186 of \<^verbatim>\<open>send_to_zipkin\<close>. The defaults of the two \<^verbatim>\<open>.get\<close> calls are evaluated
  before the lookup, so two identifiers are drawn and dropped even though the keys are
  there. The parent is \<open>None\<close> when the dict holds Python's \<^verbatim>\<open>None\<close>.
\<close>

definition normalize_ids :: "entropy \<Rightarrow> string \<Rightarrow> string \<Rightarrow> string option \<Rightarrow> zipkin_attrs \<times> entropy" where
  "normalize_ids g0 t s p =
     (let (d1, g1) = uuid4_hex g0;
          (d2, g2) = uuid4_hex g1;
          (t', g3) = (if t \<noteq> [] \<and> invalid_id t then uuid4_hex g2 else (t, g2));
          (s', g4) = (if s \<noteq> [] \<and> invalid_id s then uuid4_hex g3 else (s, g3));
          p' = (case p of
                  None \<Rightarrow> None
                | Some q \<Rightarrow>
                    if q \<noteq> [] \<and> q \<noteq> ''None''
                    then (if invalid_id q then None else Some q)
                    else None)
      in (\<lparr> attr_trace_id = t', attr_span_id = s', attr_parent_span_id = p',
             is_sampled = True \<rparr>, g4))"

section \<open>Span name and tags\<close>

text \<open>\<^verbatim>\<open>re.search(r'([a-zA-Z]+) operation', message)\<close> (line 196).\<close>

definition op_pattern :: rx where
  "op_pattern = Seq (Grp 1 (plus (Cls is_ascii_letter))) (seqs (map lit '' operation''))"

text \<open>Lines 189-206.\<close>

definition span_name_of :: "log_data \<Rightarrow> string" where
  "span_name_of d =
     (let logger_name = last (split_on CHR ''.'' (logger d));
          operation =
            (if contains ''operation'' (lower (message d))
             then (case re_search op_pattern (message d) of
                     Some m \<Rightarrow> group m 1
                   | None \<Rightarrow> ''process'')
             else ''process'');
          span_name = logger_name @ ''.'' @ operation
      in if thread d \<noteq> []
         then span_name @ '' ('' @ last (split_on CHR ''-'' (thread d)) @ '')''
         else span_name)"

text \<open>Lines 220-231.\<close>

definition message_tag :: "string \<Rightarrow> string" where
  "message_tag msg = (if length msg < 256 then msg else take 253 msg @ ''...'')"

definition span_tags :: "log_data \<Rightarrow> string \<rightharpoonup> string" where
  "span_tags d =
     [''thread'' \<mapsto> thread d,
      ''level'' \<mapsto> level d,
      ''logger'' \<mapsto> logger d,
      ''original_log_format'' \<mapsto> service_context d,
      ''message'' \<mapsto> message_tag (message d)]"

text \<open>
  The span that the \<^verbatim>\<open>zipkin_span\<close> block of lines 233-244 hands to the transport. The
  annotation keeps \<^verbatim>\<open>timestamp_micros\<close>; the source divides it by 1_000_000 as a float.
\<close>

record span =
  service_name :: string
  span_name :: string
  attrs :: zipkin_attrs
  binary_annotations :: "string \<rightharpoonup> string"
  annotations :: "(string \<times> int) list"

definition build_span :: "env \<Rightarrow> log_data \<Rightarrow> zipkin_attrs \<Rightarrow> span" where
  "build_span e d a =
     \<lparr> service_name = SERVICE_NAME e,
       span_name = span_name_of d,
       attrs = a,
       binary_annotations = span_tags d,
       annotations =
         [(last (split_on CHR ''.'' (logger d)) @ '': '' @ message d, timestamp_micros d)] \<rparr>"

section \<open>Transport\<close>

text \<open>
  What \<^verbatim>\<open>session.post\<close> meets: a response with a status code, or no response (connection
  error, timeout), for which \<^verbatim>\<open>requests\<close> raises. \<^verbatim>\<open>raise_for_status\<close> raises
  \<^verbatim>\<open>HTTPError\<close> for 4xx and 5xx. Both exceptions are \<^verbatim>\<open>RequestException\<close>s.
\<close>

datatype response = HttpStatus nat | NoResponse

datatype exn = ConnectionError | HTTPError nat

definition session_post :: "response \<Rightarrow> exn + nat" where
  "session_post r = (case r of NoResponse \<Rightarrow> Inl ConnectionError | HttpStatus st \<Rightarrow> Inr st)"

definition raise_for_status :: "nat \<Rightarrow> exn + unit" where
  "raise_for_status st = (if 400 \<le> st \<and> st < 600 then Inl (HTTPError st) else Inr ())"

text \<open>
  \<^verbatim>\<open>HttpTransportHandler.send\<close> (lines 39-65): the result is what the caller gets (\<open>Inr ()\<close>
  is Python's \<^verbatim>\<open>None\<close>, \<open>Inl\<close> would be an exception leaving \<^verbatim>\<open>send\<close>), with the ERROR
  records it logs. \<^verbatim>\<open>session.post\<close> is called once.
\<close>

definition send :: "response \<Rightarrow> (exn + unit) \<times> string list" where
  "send r =
     (case (case session_post r of Inl x \<Rightarrow> Inl x | Inr st \<Rightarrow> raise_for_status st) of
        Inl x \<Rightarrow> (Inr (), [''Failed to send spans to Zipkin'', ''Response''])
      | Inr u \<Rightarrow> (Inr (), []))"

section \<open>\<^verbatim>\<open>send_to_zipkin\<close> and the main loop\<close>

text \<open>
  The state of a run besides the span counter: the entropy still to come, the answers of
  the backend to the POSTs still to come, the spans posted so far, and the ERROR records
  logged so far.
\<close>

record world =
  entropy_of :: entropy
  backend :: "nat \<Rightarrow> response"
  posted :: "span list"
  error_log :: "string list"

definition send_to_zipkin :: "env \<Rightarrow> world \<Rightarrow> log_data \<Rightarrow> world" where
  "send_to_zipkin e w d =
     (let (a, g) = normalize_ids (entropy_of w) (trace_id d) (span_id d) (Some (parent_span_id d));
          sp = build_span e d a;
          (r, errs) = send (backend w 0)
      in w \<lparr> entropy_of := g,
             backend := (\<lambda>n. backend w (Suc n)),
             posted := posted w @ [sp],
             error_log := error_log w @ errs \<rparr>)"

text \<open>
  The loop of lines 262-280 (and its copy for standard input, lines 293-309):
  \<^verbatim>\<open>span_count\<close> and the world after the lines.
\<close>

fun run :: "env \<Rightarrow> nat \<times> world \<Rightarrow> string list \<Rightarrow> nat \<times> world" where
  "run e (span_count, w) [] = (span_count, w)"
| "run e (span_count, w) (line # rest) =
     (case parse_log_line e line of
        None \<Rightarrow> run e (span_count, w) rest
      | Some parsed_data \<Rightarrow> run e (span_count + 1, send_to_zipkin e w parsed_data) rest)"

section \<open>The properties of the specification, in its words\<close>

text \<open>
  The validation rule of the specification: the string is hexadecimal (\<^verbatim>\<open>[0-9a-fA-F]+\<close>)
  and its length is exactly 16 or 32. The data model asks for lowercase hexadecimal.
\<close>

definition valid_hex_id :: "string \<Rightarrow> bool" where
  "valid_hex_id x \<longleftrightarrow>
     (length x = 16 \<or> length x = 32) \<and> (\<forall>c \<in> set x. c \<in> set ''0123456789abcdefABCDEF'')"

definition lower_hex_id :: "string \<Rightarrow> bool" where
  "lower_hex_id x \<longleftrightarrow>
     (length x = 16 \<or> length x = 32) \<and> (\<forall>c \<in> set x. c \<in> set ''0123456789abcdef'')"

section \<open>Sample inputs\<close>

definition env0 :: env where
  "env0 = \<lparr> strptime_millis = (\<lambda>ts. None), now_millis = 0, SERVICE_NAME = ''task-service'' \<rparr>"

definition world0 :: "response \<Rightarrow> world" where
  "world0 r = \<lparr> entropy_of = (\<lambda>n. of_nat n), backend = (\<lambda>n. r), posted = [], error_log = [] \<rparr>"

text \<open>The line of the first end-to-end scenario, as the specification writes it.\<close>

definition scenario1_line :: string where
  "scenario1_line = ''2024-01-15/10:30:00.123[thread-1][svc-a:4bf92f3577b34da6a3ce929d0e0e4736:00f067aa0ba902b7:00f067aa0ba902b8] INFO com.example.Worker - operation start''"

text \<open>The same line with one space between the timestamp and the thread.\<close>

definition spaced_line :: string where
  "spaced_line = ''2024-01-15/10:30:00.123 [thread-1][svc-a:4bf92f3577b34da6a3ce929d0e0e4736:00f067aa0ba902b7:00f067aa0ba902b8] INFO com.example.Worker - operation start''"

text \<open>A well-formed line whose trace id is \<^verbatim>\<open>xyz\<close>.\<close>

definition xyz_line :: string where
  "xyz_line = ''2024-01-15/10:30:00.123 [thread-1][svc-a:xyz:00f067aa0ba902b7:00f067aa0ba902b8] INFO com.example.Worker - operation start''"

text \<open>The record that \<^verbatim>\<open>parse_log_line\<close> returns for that line.\<close>

definition xyz_data :: log_data where
  "xyz_data =
     \<lparr> timestamp = ''2024-01-15/10:30:00.123'', timestamp_micros = 0,
       thread = ''thread-1'', service_context = ''svc-a'', trace_id = ''xyz'',
       parent_span_id = ''00f067aa0ba902b7'', span_id = ''00f067aa0ba902b8'',
       level = ''INFO'', logger = ''com.example.Worker'', message = ''operation start'' \<rparr>"

text \<open>A line whose second bracket holds the context and two ids only.\<close>

definition short_group_line :: string where
  "short_group_line = ''2024-01-15/10:30:00.123 [thread-1][svc-a:4bf92f3577b34da6:00f067aa0ba902b7] INFO com.example.Worker - operation start''"

text \<open>A line whose second bracket is \<^verbatim>\<open>[a]\<close>, followed by a third bracket.\<close>

definition nested_bracket_line :: string where
  "nested_bracket_line = ''2024-01-15/10:30:00.123 [main][a][b:c:d:e] INFO x - y''"

text \<open>A line whose trace id is the letter e with an acute accent (code point 0xE9).\<close>

definition accent_line :: string where
  "accent_line = ''2024-01-15/10:30:00.123 [main][svc:'' @ [CHR 0xE9] @ '':c:d] INFO x - y''"

text \<open>A line whose trace id contains a hyphen.\<close>

definition hyphen_line :: string where
  "hyphen_line = ''2024-01-15/10:30:00.123 [main][svc:ab-cd:c:d] INFO x - y''"

text \<open>A record whose message is 256 times the letter a, and one with a short message.\<close>

definition long_message_data :: log_data where
  "long_message_data = xyz_data \<lparr> message := replicate 256 (CHR ''a'') \<rparr>"

text \<open>A trace id in uppercase hexadecimal.\<close>

definition upper_id :: string where
  "upper_id = ''4BF92F3577B34DA6''"

text \<open>The record that \<^verbatim>\<open>parse_log_line\<close> returns for the line with one space.\<close>

definition spaced_data :: log_data where
  "spaced_data = xyz_data \<lparr> trace_id := ''4bf92f3577b34da6a3ce929d0e0e4736'' \<rparr>"

section \<open>Identifier normalization\<close>

text \<open>A regenerated identifier is 32 lowercase hexadecimal characters.\<close>

lemma hex_digit_lower: "hex_digit n \<in> set ''0123456789abcdef''"
  unfolding hex_digit_def by (rule nth_mem) simp

lemma hex32_length: "length (hex32 n) = 32"
  by (simp add: hex32_def)

lemma hex32_lower: "c \<in> set (hex32 n) \<Longrightarrow> c \<in> set ''0123456789abcdef''"
  unfolding hex32_def using hex_digit_lower by auto

lemma lower_hex_id_hex32: "lower_hex_id (hex32 n)"
  unfolding lower_hex_id_def using hex32_lower[of _ n] hex32_length[of n] by simp

text \<open>The test of the source is the negation of the rule of the specification.\<close>

lemma valid_hex_id_iff: "valid_hex_id x \<longleftrightarrow> \<not> invalid_id x"
  by (auto simp: valid_hex_id_def invalid_id_def list_all_iff)

lemma hex_chars_append: "''0123456789abcdefABCDEF'' = ''0123456789abcdef'' @ ''ABCDEF''"
  by simp

lemma lower_hex_char: "c \<in> set ''0123456789abcdef'' \<Longrightarrow> c \<in> set ''0123456789abcdefABCDEF''"
  unfolding hex_chars_append set_append by (rule UnI1)

lemma lower_hex_valid: "lower_hex_id x \<Longrightarrow> valid_hex_id x"
  unfolding lower_hex_id_def valid_hex_id_def using lower_hex_char by blast

lemma invalid_empty: "invalid_id []"
  by (simp add: invalid_id_def)

lemma invalid_None: "invalid_id ''None''"
  by (simp add: invalid_id_def)

lemma hex32_valid: "\<not> invalid_id (hex32 n)"
  using lower_hex_valid[OF lower_hex_id_hex32] valid_hex_id_iff by blast

lemma hex32_nonempty: "hex32 n \<noteq> []"
  using hex32_length[of n] by auto

text \<open>The three fields of the result, one by one.\<close>

lemma normalize_trace:
  "attr_trace_id (fst (normalize_ids g t s p)) =
     (if t \<noteq> [] \<and> invalid_id t then hex32 (unat (uuid_int (g 2))) else t)"
  by (simp add: normalize_ids_def uuid4_hex_def Let_def numeral_2_eq_2)

lemma normalize_span:
  "attr_span_id (fst (normalize_ids g t s p)) =
     (if s \<noteq> [] \<and> invalid_id s
      then hex32 (unat (uuid_int (g (if t \<noteq> [] \<and> invalid_id t then 3 else 2))))
      else s)"
  by (simp add: normalize_ids_def uuid4_hex_def Let_def numeral_3_eq_3 numeral_2_eq_2)

lemma normalize_parent:
  "attr_parent_span_id (fst (normalize_ids g t s p)) =
     (case p of None \<Rightarrow> None
      | Some q \<Rightarrow> if q \<noteq> [] \<and> q \<noteq> ''None'' \<and> \<not> invalid_id q then Some q else None)"
  by (simp add: normalize_ids_def uuid4_hex_def Let_def split_def split: option.splits)

lemma normalize_sampled: "is_sampled (fst (normalize_ids g t s p))"
  by (simp add: normalize_ids_def uuid4_hex_def Let_def split_def)

lemma normalize_entropy:
  "snd (normalize_ids g t s p) = snd (normalize_ids g t s None)"
  by (simp add: normalize_ids_def uuid4_hex_def Let_def split_def)

lemma valid_sample16: "valid_hex_id ''00f067aa0ba902b7''"
  by (simp add: valid_hex_id_def)

lemma invalid_sample: "\<not> valid_hex_id ''00f067aa-ba902b7''"
  by (simp add: valid_hex_id_def)

text \<open>
  C3. A parent span id that is absent, empty or the literal \<^verbatim>\<open>None\<close> gives no parent; a
  parent span id that fails the rule (hexadecimal, length 16 or 32) gives no parent either;
  a parent span id that satisfies the rule is kept as it is. The parent is never replaced
  by a generated identifier: the result is the input or nothing, and the entropy left
  after the call is the same as for a call without parent.
\<close>

theorem parent_span_id_policy:
  "(p = None \<or> p = Some [] \<or> p = Some ''None'' \<longrightarrow>
      attr_parent_span_id (fst (normalize_ids g t s p)) = None) \<and>
   (\<forall>q. p = Some q \<and> \<not> valid_hex_id q \<longrightarrow>
      attr_parent_span_id (fst (normalize_ids g t s p)) = None) \<and>
   (\<forall>q. p = Some q \<and> valid_hex_id q \<longrightarrow>
      attr_parent_span_id (fst (normalize_ids g t s p)) = Some q) \<and>
   snd (normalize_ids g t s p) = snd (normalize_ids g t s None)"
proof -
  have a: "p = None \<or> p = Some [] \<or> p = Some ''None'' \<longrightarrow>
      attr_parent_span_id (fst (normalize_ids g t s p)) = None"
    by (auto simp: normalize_parent)
  have b: "\<forall>q. p = Some q \<and> \<not> valid_hex_id q \<longrightarrow>
      attr_parent_span_id (fst (normalize_ids g t s p)) = None"
    by (simp add: normalize_parent valid_hex_id_iff)
  have c: "\<forall>q. p = Some q \<and> valid_hex_id q \<longrightarrow>
      attr_parent_span_id (fst (normalize_ids g t s p)) = Some q"
    using invalid_empty invalid_None by (auto simp: normalize_parent valid_hex_id_iff)
  show ?thesis using a b c normalize_entropy[of g t s p] by blast
qed

theorem parent_span_id_policy_witness:
  "attr_parent_span_id (fst (normalize_ids (\<lambda>n. 0) ''xyz'' ''abc'' (Some ''None''))) = None \<and>
   \<not> valid_hex_id ''00f067aa-ba902b7'' \<and>
   attr_parent_span_id (fst (normalize_ids (\<lambda>n. 0) ''xyz'' ''abc'' (Some ''00f067aa-ba902b7''))) = None \<and>
   valid_hex_id ''00f067aa0ba902b7'' \<and>
   attr_parent_span_id (fst (normalize_ids (\<lambda>n. 0) ''xyz'' ''abc'' (Some ''00f067aa0ba902b7'')))
     = Some ''00f067aa0ba902b7''"
  using parent_span_id_policy[of "Some ''None''" "\<lambda>n. 0" "''xyz''" "''abc''"]
        parent_span_id_policy[of "Some ''00f067aa-ba902b7''" "\<lambda>n. 0" "''xyz''" "''abc''"]
        parent_span_id_policy[of "Some ''00f067aa0ba902b7''" "\<lambda>n. 0" "''xyz''" "''abc''"]
        valid_sample16 invalid_sample
  by blast

text \<open>What normalization leaves alone, and that its results are of that kind.\<close>

lemma normalize_eq:
  "fst (normalize_ids g t s p) =
     \<lparr> attr_trace_id = attr_trace_id (fst (normalize_ids g t s p)),
       attr_span_id = attr_span_id (fst (normalize_ids g t s p)),
       attr_parent_span_id = attr_parent_span_id (fst (normalize_ids g t s p)),
       is_sampled = True \<rparr>"
  by (simp add: normalize_ids_def uuid4_hex_def Let_def split_def)

lemma renorm_trace:
  "t = [] \<or> \<not> invalid_id t \<Longrightarrow> attr_trace_id (fst (normalize_ids g t s p)) = t"
  by (auto simp: normalize_trace)

lemma renorm_span:
  "s = [] \<or> \<not> invalid_id s \<Longrightarrow> attr_span_id (fst (normalize_ids g t s p)) = s"
  by (auto simp: normalize_span)

lemma renorm_parent:
  "p = None \<or> (\<exists>q. p = Some q \<and> \<not> invalid_id q) \<Longrightarrow>
   attr_parent_span_id (fst (normalize_ids g t s p)) = p"
  using invalid_empty invalid_None by (auto simp: normalize_parent)

lemma out_trace: "attr_trace_id (fst (normalize_ids g t s p)) = [] \<or>
                  \<not> invalid_id (attr_trace_id (fst (normalize_ids g t s p)))"
  unfolding normalize_trace using hex32_valid by presburger

lemma out_span: "attr_span_id (fst (normalize_ids g t s p)) = [] \<or>
                  \<not> invalid_id (attr_span_id (fst (normalize_ids g t s p)))"
  unfolding normalize_span using hex32_valid by presburger

lemma out_parent: "attr_parent_span_id (fst (normalize_ids g t s p)) = None \<or>
   (\<exists>q. attr_parent_span_id (fst (normalize_ids g t s p)) = Some q \<and> \<not> invalid_id q)"
  unfolding normalize_parent by (cases p) auto

lemma normalize_fixed:
  assumes "t = [] \<or> \<not> invalid_id t" "s = [] \<or> \<not> invalid_id s"
          "p = None \<or> (\<exists>q. p = Some q \<and> \<not> invalid_id q)"
  shows "fst (normalize_ids g t s p) =
     \<lparr> attr_trace_id = t, attr_span_id = s, attr_parent_span_id = p, is_sampled = True \<rparr>"
  using normalize_eq[of g t s p] renorm_trace[OF assms(1), of g s p]
        renorm_span[OF assms(2), of g t p] renorm_parent[OF assms(3), of g t s]
  by simp

text \<open>
  C6. A triple whose trace id and span id satisfy the rule, and whose parent is absent or
  satisfies it, comes back unchanged; and normalizing the result of a normalization again,
  with whatever entropy, gives that same result.
\<close>
theorem normalize_ids_idempotent:
  "(valid_hex_id t \<and> valid_hex_id s \<and> (\<forall>q. p = Some q \<longrightarrow> valid_hex_id q) \<longrightarrow>
      fst (normalize_ids g t s p) =
        \<lparr> attr_trace_id = t, attr_span_id = s, attr_parent_span_id = p, is_sampled = True \<rparr>) \<and>
   (let a = fst (normalize_ids g t s p)
    in fst (normalize_ids g' (attr_trace_id a) (attr_span_id a) (attr_parent_span_id a)) = a)"
proof -
  have first: "fst (normalize_ids g t s p) =
        \<lparr> attr_trace_id = t, attr_span_id = s, attr_parent_span_id = p, is_sampled = True \<rparr>"
    if v: "valid_hex_id t \<and> valid_hex_id s \<and> (\<forall>q. p = Some q \<longrightarrow> valid_hex_id q)"
  proof (rule normalize_fixed)
    show "t = [] \<or> \<not> invalid_id t" using v valid_hex_id_iff by blast
    show "s = [] \<or> \<not> invalid_id s" using v valid_hex_id_iff by blast
    show "p = None \<or> (\<exists>q. p = Some q \<and> \<not> invalid_id q)"
      using v valid_hex_id_iff by (cases p) blast+
  qed
  define a where "a = fst (normalize_ids g t s p)"
  have "fst (normalize_ids g' (attr_trace_id a) (attr_span_id a) (attr_parent_span_id a)) =
     \<lparr> attr_trace_id = attr_trace_id a, attr_span_id = attr_span_id a,
       attr_parent_span_id = attr_parent_span_id a, is_sampled = True \<rparr>"
    unfolding a_def by (rule normalize_fixed) (rule out_trace out_span out_parent)+
  also have "\<dots> = a"
    unfolding a_def by (rule normalize_eq[symmetric])
  finally have second:
    "fst (normalize_ids g' (attr_trace_id a) (attr_span_id a) (attr_parent_span_id a)) = a" .
  show ?thesis
    unfolding Let_def using first second[unfolded a_def] by blast
qed

lemma valid_sample32: "valid_hex_id ''4bf92f3577b34da6a3ce929d0e0e4736''"
  by (simp add: valid_hex_id_def)

theorem normalize_ids_idempotent_witness:
  "valid_hex_id ''4bf92f3577b34da6a3ce929d0e0e4736'' \<and> valid_hex_id ''00f067aa0ba902b7'' \<and>
   fst (normalize_ids (\<lambda>n. 0) ''4bf92f3577b34da6a3ce929d0e0e4736'' ''00f067aa0ba902b7'' None) =
     \<lparr> attr_trace_id = ''4bf92f3577b34da6a3ce929d0e0e4736'', attr_span_id = ''00f067aa0ba902b7'',
       attr_parent_span_id = None, is_sampled = True \<rparr>"
  using normalize_ids_idempotent[of "''4bf92f3577b34da6a3ce929d0e0e4736''" "''00f067aa0ba902b7''"
          None "\<lambda>n. 0" "\<lambda>n. 0"]
        valid_sample32 valid_sample16
  by blast

section \<open>Regeneration of invalid identifiers\<close>

lemma xyz_facts: "''xyz'' \<noteq> [] \<and> \<not> valid_hex_id ''xyz''"
  by (simp add: valid_hex_id_def)





lemma parse_xyz_line: "parse_log_line env0 xyz_line = Some xyz_data"
  by code_simp






section \<open>The identifiers of a span\<close>

lemma upper_id_valid: "valid_hex_id upper_id"
  by (simp add: valid_hex_id_def upper_id_def)

lemma upper_id_not_lower: "\<not> lower_hex_id upper_id"
  by (simp add: lower_hex_id_def upper_id_def)

lemma upper_id_kept: "attr_trace_id (fst (normalize_ids g upper_id s p)) = upper_id"
  using upper_id_valid by (simp add: normalize_trace valid_hex_id_iff)

lemma valid_trace_out:
  "t \<noteq> [] \<Longrightarrow> valid_hex_id (attr_trace_id (fst (normalize_ids g t s p)))"
  using out_trace[of g t s p] hex32_nonempty
  by (auto simp: valid_hex_id_iff normalize_trace)

lemma valid_span_out:
  "s \<noteq> [] \<Longrightarrow> valid_hex_id (attr_span_id (fst (normalize_ids g t s p)))"
  using out_span[of g t s p] hex32_nonempty
  by (auto simp: valid_hex_id_iff normalize_span)

lemma valid_parent_out:
  "attr_parent_span_id (fst (normalize_ids g t s p)) = Some q \<Longrightarrow> valid_hex_id q"
  using out_parent[of g t s p] by (auto simp: valid_hex_id_iff)

text \<open>
  An identifier of 16 uppercase hexadecimal characters passes the test of line 165 and is
  kept as it is, so the result is not lowercase; and an empty identifier is kept as well.
\<close>

theorem uppercase_id_kept_counterexample:
  "\<not> (\<forall>g t s p. lower_hex_id (attr_trace_id (fst (normalize_ids g t s p)))) \<and>
   \<not> (\<forall>g t s p. valid_hex_id (attr_trace_id (fst (normalize_ids g t s p))))"
proof
  show "\<not> (\<forall>g t s p. lower_hex_id (attr_trace_id (fst (normalize_ids g t s p))))"
  proof
    assume "\<forall>g t s p. lower_hex_id (attr_trace_id (fst (normalize_ids g t s p)))"
    then have "lower_hex_id (attr_trace_id (fst (normalize_ids (\<lambda>n. 0) upper_id upper_id None)))"
      by blast
    then show False using upper_id_kept upper_id_not_lower by simp
  qed
  show "\<not> (\<forall>g t s p. valid_hex_id (attr_trace_id (fst (normalize_ids g t s p))))"
  proof
    assume "\<forall>g t s p. valid_hex_id (attr_trace_id (fst (normalize_ids g t s p)))"
    then have "valid_hex_id (attr_trace_id (fst (normalize_ids (\<lambda>n. 0) [] [] None)))"
      by blast
    then show False by (simp add: normalize_trace valid_hex_id_def)
  qed
qed

text \<open>
  C4. When the trace id given to normalization is not empty, the trace id of the result is
  16 or 32 hexadecimal characters, in either case; likewise for the span id; a parent in
  the result is always 16 or 32 hexadecimal characters. An identifier that was regenerated
  is lowercase.
\<close>

theorem normalized_ids_valid:
  "(t \<noteq> [] \<longrightarrow> valid_hex_id (attr_trace_id (fst (normalize_ids g t s p)))) \<and>
   (s \<noteq> [] \<longrightarrow> valid_hex_id (attr_span_id (fst (normalize_ids g t s p)))) \<and>
   (\<forall>q. attr_parent_span_id (fst (normalize_ids g t s p)) = Some q \<longrightarrow> valid_hex_id q) \<and>
   (t \<noteq> [] \<and> \<not> valid_hex_id t \<longrightarrow> lower_hex_id (attr_trace_id (fst (normalize_ids g t s p)))) \<and>
   (s \<noteq> [] \<and> \<not> valid_hex_id s \<longrightarrow> lower_hex_id (attr_span_id (fst (normalize_ids g t s p))))"
proof -
  have a: "t \<noteq> [] \<and> \<not> valid_hex_id t \<longrightarrow>
      lower_hex_id (attr_trace_id (fst (normalize_ids g t s p)))"
    by (simp add: normalize_trace valid_hex_id_iff lower_hex_id_hex32)
  have b: "s \<noteq> [] \<and> \<not> valid_hex_id s \<longrightarrow>
      lower_hex_id (attr_span_id (fst (normalize_ids g t s p)))"
    by (simp add: normalize_span valid_hex_id_iff lower_hex_id_hex32)
  show ?thesis
    using a b valid_trace_out[of t g s p] valid_span_out[of s g t p] valid_parent_out[of g t s p]
    by blast
qed

theorem normalized_ids_valid_witness:
  "''xyz'' \<noteq> [] \<and> upper_id \<noteq> [] \<and> \<not> valid_hex_id ''xyz'' \<and>
   lower_hex_id (attr_trace_id (fst (normalize_ids (\<lambda>n. 0) ''xyz'' upper_id (Some ''00f067aa0ba902b7'')))) \<and>
   valid_hex_id (attr_span_id (fst (normalize_ids (\<lambda>n. 0) ''xyz'' upper_id (Some ''00f067aa0ba902b7'')))) \<and>
   attr_parent_span_id (fst (normalize_ids (\<lambda>n. 0) ''xyz'' upper_id (Some ''00f067aa0ba902b7''))) =
     Some ''00f067aa0ba902b7'' \<and> valid_hex_id ''00f067aa0ba902b7''"
proof -
  have ne: "upper_id \<noteq> []" by (simp add: upper_id_def)
  have par: "attr_parent_span_id (fst (normalize_ids (\<lambda>n. 0) ''xyz'' upper_id (Some ''00f067aa0ba902b7''))) =
     Some ''00f067aa0ba902b7''"
    using valid_sample16 renorm_parent[of "Some ''00f067aa0ba902b7''"] valid_hex_id_iff by blast
  show ?thesis
    using normalized_ids_valid[of "''xyz''" "\<lambda>n. 0" upper_id "Some ''00f067aa0ba902b7''"]
          xyz_facts ne par
    by blast
qed

section \<open>The message tag\<close>

lemma message_tag_of_span:
  "binary_annotations (build_span e d a) ''message'' = Some (message_tag (message d))"
  by (simp add: build_span_def span_tags_def)

lemma message_tag_long:
  "256 \<le> length msg \<Longrightarrow> message_tag msg = take 253 msg @ ''...''"
  by (simp add: message_tag_def)

lemma message_tag_short: "length msg < 256 \<Longrightarrow> message_tag msg = msg"
  by (simp add: message_tag_def)

lemma message_tag_long_length: "256 \<le> length msg \<Longrightarrow> length (message_tag msg) = 256"
  by (simp add: message_tag_def)

lemma message_tag_long_prefix: "256 \<le> length msg \<Longrightarrow> prefix (take 253 (message_tag msg)) msg"
  by (simp add: message_tag_def take_is_prefix)

lemma long_message: "message long_message_data = replicate 256 (CHR ''a'')"
  by (simp add: long_message_data_def)

lemma dots_not_in_long_message: "CHR ''.'' \<notin> set (message long_message_data)"
  by (simp add: long_message)

text \<open>
  The tag of a message of 256 letters ends in three dots, which the message does not hold.
\<close>

theorem truncated_tag_not_prefix_counterexample:
  "\<not> (\<forall>e d a. 256 \<le> length (message d) \<longrightarrow>
        (\<exists>tag. binary_annotations (build_span e d a) ''message'' = Some tag \<and>
               prefix tag (message d)))"
proof
  assume h: "\<forall>e d a. 256 \<le> length (message d) \<longrightarrow>
        (\<exists>tag. binary_annotations (build_span e d a) ''message'' = Some tag \<and>
               prefix tag (message d))"
  have len: "256 \<le> length (message long_message_data)" by (simp add: long_message)
  from h len have "prefix (message_tag (message long_message_data)) (message long_message_data)"
    unfolding message_tag_of_span by blast
  then have "set (message_tag (message long_message_data)) \<subseteq> set (message long_message_data)"
    by (rule set_mono_prefix)
  moreover have "CHR ''.'' \<in> set (message_tag (message long_message_data))"
    unfolding message_tag_long[OF len] by simp
  ultimately show False using dots_not_in_long_message by blast
qed

text \<open>
  C5. For a message of 256 characters or more the \<^verbatim>\<open>message\<close> tag of the built span is the
  first 253 characters of the message followed by three dots; it has length 256, and its
  first 253 characters are a prefix of the message. For a shorter message the tag is the
  message.
\<close>

theorem message_tag_truncation:
  "(256 \<le> length (message d) \<longrightarrow>
      binary_annotations (build_span e d a) ''message'' = Some (take 253 (message d) @ ''...'') \<and>
      length (take 253 (message d) @ ''...'') = 256 \<and>
      prefix (take 253 (take 253 (message d) @ ''...'')) (message d)) \<and>
   (length (message d) < 256 \<longrightarrow>
      binary_annotations (build_span e d a) ''message'' = Some (message d))"
  unfolding message_tag_of_span
  using message_tag_long[of "message d"] message_tag_short[of "message d"]
        message_tag_long_length[of "message d"] message_tag_long_prefix[of "message d"]
  by simp

theorem message_tag_truncation_witness:
  "256 \<le> length (message long_message_data) \<and>
   binary_annotations (build_span env0 long_message_data
       \<lparr> attr_trace_id = upper_id, attr_span_id = upper_id, attr_parent_span_id = None,
         is_sampled = True \<rparr>) ''message'' =
     Some (replicate 253 (CHR ''a'') @ ''...'') \<and>
   length (message xyz_data) < 256 \<and>
   binary_annotations (build_span env0 xyz_data
       \<lparr> attr_trace_id = upper_id, attr_span_id = upper_id, attr_parent_span_id = None,
         is_sampled = True \<rparr>) ''message'' = Some ''operation start''"
  using message_tag_truncation[of long_message_data env0
          "\<lparr> attr_trace_id = upper_id, attr_span_id = upper_id, attr_parent_span_id = None,
             is_sampled = True \<rparr>"]
        message_tag_truncation[of xyz_data env0
          "\<lparr> attr_trace_id = upper_id, attr_span_id = upper_id, attr_parent_span_id = None,
             is_sampled = True \<rparr>"]
  by (simp add: long_message xyz_data_def)

section \<open>The main loop\<close>

lemma run_count:
  "fst (run e (n, w) lines) = n + length (filter (\<lambda>l. parse_log_line e l \<noteq> None) lines)"
proof (induction lines arbitrary: n w)
  case Nil
  show ?case by simp
next
  case (Cons l ls)
  show ?case
  proof (cases "parse_log_line e l")
    case None
    then show ?thesis using Cons.IH[of n w] by simp
  next
    case (Some d)
    then show ?thesis using Cons.IH[of "n + 1" "send_to_zipkin e w d"] by simp
  qed
qed

lemma parse_hyphen_line: "parse_log_line env0 hyphen_line = None"
  by code_simp

lemma parse_spaced_line: "parse_log_line env0 spaced_line = Some spaced_data"
  by code_simp

text \<open>
  C10. The span count after a run is the count before it plus the number of lines that
  \<^verbatim>\<open>parse_log_line\<close> accepted, whatever the backend answers: two runs over the same lines
  that differ in the backend (and in entropy, spans posted and errors logged so far) end
  with the same count.
\<close>

theorem span_count_is_accepted_lines:
  "fst (run e (n, w) lines) = n + length (filter (\<lambda>l. parse_log_line e l \<noteq> None) lines) \<and>
   fst (run e (n, w) lines) = fst (run e (n, w') lines)"
  using run_count[of e n w lines] run_count[of e n w' lines] by simp

theorem span_count_is_accepted_lines_witness:
  "fst (run env0 (0, world0 (HttpStatus 500)) [spaced_line, hyphen_line, xyz_line]) = 2 \<and>
   fst (run env0 (0, world0 (HttpStatus 200)) [spaced_line, hyphen_line, xyz_line]) = 2"
  using span_count_is_accepted_lines[of env0 0 "world0 (HttpStatus 500)"
          "[spaced_line, hyphen_line, xyz_line]" "world0 (HttpStatus 200)"]
        parse_hyphen_line parse_spaced_line parse_xyz_line
  by simp

section \<open>Transport failures\<close>









end
